theory Spec2Isabelle
  imports Main "HOL-Library.Word"
begin

section \<open>The watch task of lib/model/task.js\<close>

text \<open>
  A shallow embedding of \<^verbatim>\<open>src/lib/model/task.js\<close>. The task object is a record that
  every method takes and returns; what a method does to the outside (reading the clock,
  emitting an event, handing a request to the HTTP client) is recorded in a second record,
  the world. The two network callbacks of \<^verbatim>\<open>run\<close> are functions of their own, so that the
  state between the call of \<^verbatim>\<open>run\<close> and the arrival of a response is a state of the model.

  JavaScript values are typed as the JSDoc comment of the constructor types them: an epoch
  and a timeout are integers, a name and a URL are strings, \<^verbatim>\<open>patches\<close> is a string or an
  array of strings, \<^verbatim>\<open>cron\<close> is a string or an epoch. A key that is missing, or whose value
  is \<^verbatim>\<open>undefined\<close>, is \<open>None\<close>.
\<close>

subsection \<open>Data\<close>

datatype error = Error string | SyntaxError

datatype cron_val = CronExpr string | CronEpoch int

datatype patches_val = PatchName string | PatchNames "string list"

text \<open>\<^verbatim>\<open>_counts\<close> and \<^verbatim>\<open>_last\<close>. The fields are prefixed, since \<^verbatim>\<open>run\<close> and \<^verbatim>\<open>succ\<close> are
  functions of the source as well.\<close>

record counts =
  c_run :: int
  c_err :: int
  c_succ :: int

record last_run =
  l_succ :: "bool option"
  l_date :: "int option"

text \<open>The timer of the \<^verbatim>\<open>cron\<close> package, as far as the task uses it: what it was created
  with, whether its tick handler was built with \<^verbatim>\<open>once\<close> true, and its \<^verbatim>\<open>running\<close> flag.\<close>

datatype cron_time = AtDate int | Pattern string

record CronJob =
  cj_time :: cron_time
  cj_once :: bool
  cj_running :: bool

text \<open>The plain object the constructor is given and \<^verbatim>\<open>toJSON\<close> returns: the sixteen keys,
  each of which may be missing.\<close>

record task_json =
  j_name :: "string option"
  j_state :: "int option"
  j_url :: "string option"
  j_callback :: "string option"
  j_timeout :: "int option"
  j_hash :: "string option"
  j_urlTemplate :: "string option"
  j_callbackTemplate :: "string option"
  j_patches :: "patches_val option"
  j_cron :: "cron_val option"
  j_expireAt :: "int option"
  j_created :: "int option"
  j_updated :: "int option"
  j_running :: "bool option"
  j_counts :: "counts option"
  j_last :: "last_run option"

text \<open>The constructed task. An identifier cannot start with an underscore, so
  \<^verbatim>\<open>_running\<close>, \<^verbatim>\<open>_counts\<close>, \<^verbatim>\<open>_last\<close> and \<^verbatim>\<open>_cronJob\<close> are \<open>u_running\<close>, \<open>u_counts\<close>,
  \<open>u_last\<close> and \<open>u_cronJob\<close>.\<close>

record task =
  name :: string
  state :: int
  url :: string
  callback :: "string option"
  timeout :: "int option"
  hash :: "string option"
  urlTemplate :: "string option"
  callbackTemplate :: "string option"
  patches :: "string list option"
  cron :: "cron_val option"
  expireAt :: "int option"
  created :: int
  updated :: int
  u_running :: bool
  u_counts :: counts
  u_last :: last_run
  u_cronJob :: "CronJob option"

text \<open>\<^verbatim>\<open>Task.ACTIVE = 0; Task.STOPPED = 1; Task.EXPIRED = 2\<close>\<close>

definition ACTIVE :: int where "ACTIVE = 0"
definition STOPPED :: int where "STOPPED = 1"
definition EXPIRED :: int where "EXPIRED = 2"

subsection \<open>The world\<close>

record request =
  r_method :: "string option"
  r_url :: string
  r_body :: "string option"
  r_headers :: "(string \<times> string option) list"
  r_timeout :: "int option"

text \<open>\<open>Date_now k\<close> is what the \<open>k\<close>-th call of \<^verbatim>\<open>Date.now()\<close> returns, in milliseconds;
  \<open>reads\<close> counts the calls made so far. \<open>emitted\<close> lists the events the task has emitted
  and \<open>sent\<close> the requests it has handed to \<^verbatim>\<open>request\<close>, both oldest first.\<close>

record world =
  Date_now :: "nat \<Rightarrow> int"
  reads :: nat
  emitted :: "string list"
  sent :: "request list"

definition emit :: "string \<Rightarrow> world \<Rightarrow> world" where
  "emit ev w = w\<lparr>emitted := emitted w @ [ev]\<rparr>"

definition send :: "request \<Rightarrow> world \<Rightarrow> world" where
  "send r w = w\<lparr>sent := sent w @ [r]\<rparr>"

text \<open>\<^verbatim>\<open>~~(ms / 1000)\<close>: the quotient is cut towards zero and then taken as a signed 32-bit
  integer.\<close>

definition seconds :: "int \<Rightarrow> int" where
  "seconds ms = sint (word_of_int (sgn ms * (\<bar>ms\<bar> div 1000)) :: 32 word)"

text \<open>\<^verbatim>\<open>function _Now() { return ~~(Date.now() / 1000); }\<close>\<close>

definition Now :: "world \<Rightarrow> int \<times> world" where
  "Now w = (seconds (Date_now w (reads w)), w\<lparr>reads := Suc (reads w)\<rparr>)"

subsection \<open>Truthiness\<close>

definition truthy_str :: "string option \<Rightarrow> bool" where
  "truthy_str v = (case v of None \<Rightarrow> False | Some s \<Rightarrow> s \<noteq> [])"

definition truthy_num :: "int option \<Rightarrow> bool" where
  "truthy_num v = (case v of None \<Rightarrow> False | Some n \<Rightarrow> n \<noteq> 0)"

definition truthy_cron :: "cron_val option \<Rightarrow> bool" where
  "truthy_cron v =
     (case v of None \<Rightarrow> False
      | Some (CronExpr s) \<Rightarrow> s \<noteq> []
      | Some (CronEpoch n) \<Rightarrow> n \<noteq> 0)"

subsection \<open>The constructor\<close>

text \<open>\<^verbatim>\<open>_Merge(obj, add)\<close> copies every key of \<^verbatim>\<open>add\<close> onto \<^verbatim>\<open>obj\<close>, and does nothing when
  \<^verbatim>\<open>add\<close> is missing. The constructor calls it on the object just created, which has none
  of the sixteen keys, so the copy reads as \<^verbatim>\<open>add\<close> does.\<close>

definition blank :: task_json where
  "blank = \<lparr>j_name = None, j_state = None, j_url = None, j_callback = None,
     j_timeout = None, j_hash = None, j_urlTemplate = None, j_callbackTemplate = None,
     j_patches = None, j_cron = None, j_expireAt = None, j_created = None,
     j_updated = None, j_running = None, j_counts = None, j_last = None\<rparr>"

definition Merge :: "task_json \<Rightarrow> task_json option \<Rightarrow> task_json" where
  "Merge obj add = (case add of None \<Rightarrow> obj | Some a \<Rightarrow> a)"

text \<open>Lines 51 to 53: \<^verbatim>\<open>if (typeof this.cron === 'number' && this.cron < 1000000)
  this.cron += _Now();\<close>\<close>

definition norm_cron :: "cron_val option \<Rightarrow> world \<Rightarrow> cron_val option \<times> world" where
  "norm_cron c w =
     (case c of
        Some (CronEpoch n) \<Rightarrow>
          if n < 1000000 then (let (now, w') = Now w in (Some (CronEpoch (n + now)), w'))
          else (c, w)
      | _ \<Rightarrow> (c, w))"

text \<open>Lines 54 to 56: \<^verbatim>\<open>if (this.expireAt && this.expireAt < 1000000)
  this.expireAt += _Now();\<close>\<close>

definition norm_expireAt :: "int option \<Rightarrow> world \<Rightarrow> int option \<times> world" where
  "norm_expireAt e w =
     (case e of
        Some n \<Rightarrow>
          if n \<noteq> 0 \<and> n < 1000000 then (let (now, w') = Now w in (Some (n + now), w'))
          else (e, w)
      | None \<Rightarrow> (e, w))"

text \<open>Lines 58 to 60: \<^verbatim>\<open>if (!this.created) this.created = _Now();\<close>\<close>

definition norm_created :: "int option \<Rightarrow> world \<Rightarrow> int \<times> world" where
  "norm_created c w = (if \<not> truthy_num c then Now w else (the c, w))"

text \<open>\<^verbatim>\<open>function Task(task)\<close>. A throw is \<open>Inl\<close>; nothing of the object under construction
  survives it.\<close>

definition Task :: "world \<Rightarrow> task_json option \<Rightarrow> error + task \<times> world" where
  "Task w add =
     (let this = Merge blank add in
      if \<not> truthy_str (j_name this) then Inl (Error ''`name` must has a value'')
      else
        let st = (if \<not> truthy_num (j_state this) then ACTIVE else the (j_state this)) in
        if \<not> truthy_str (j_url this) then Inl (Error ''`url` must has a value'')
        else
          let ps = (case j_patches this of
                      Some (PatchName s) \<Rightarrow> Some [s]
                    | Some (PatchNames xs) \<Rightarrow> Some xs
                    | None \<Rightarrow> None);
              (cr, w1) = norm_cron (j_cron this) w;
              (ex, w2) = norm_expireAt (j_expireAt this) w1;
              (ct, w3) = norm_created (j_created this) w2;
              up = (if \<not> truthy_num (j_updated this) then ct else the (j_updated this))
          in Inr (\<lparr>name = the (j_name this), state = st, url = the (j_url this),
                   callback = j_callback this, timeout = j_timeout this,
                   hash = j_hash this, urlTemplate = j_urlTemplate this,
                   callbackTemplate = j_callbackTemplate this, patches = ps,
                   cron = cr, expireAt = ex, created = ct, updated = up,
                   u_running = False,
                   u_counts = \<lparr>c_run = 0, c_err = 0, c_succ = 0\<rparr>,
                   u_last = \<lparr>l_succ = None, l_date = None\<rparr>,
                   u_cronJob = None\<rparr>, w3))"

text \<open>\<^verbatim>\<open>Task.prototype.toJSON\<close>: the sixteen keys, without the timer.\<close>

definition toJSON :: "task \<Rightarrow> task_json" where
  "toJSON self =
     \<lparr>j_name = Some (name self), j_state = Some (state self), j_url = Some (url self),
      j_callback = callback self, j_timeout = timeout self, j_hash = hash self,
      j_urlTemplate = urlTemplate self, j_callbackTemplate = callbackTemplate self,
      j_patches = map_option PatchNames (patches self), j_cron = cron self,
      j_expireAt = expireAt self, j_created = Some (created self),
      j_updated = Some (updated self), j_running = Some (u_running self),
      j_counts = Some (u_counts self), j_last = Some (u_last self)\<rparr>"

text \<open>The values that lines 51 to 56 leave as they are: the guards of the two
  normalisations, negated.\<close>

definition absolute_cron :: "cron_val option \<Rightarrow> bool" where
  "absolute_cron c = (case c of Some (CronEpoch n) \<Rightarrow> 1000000 \<le> n | _ \<Rightarrow> True)"

definition absolute_expireAt :: "int option \<Rightarrow> bool" where
  "absolute_expireAt e = (case e of Some n \<Rightarrow> n = 0 \<or> 1000000 \<le> n | None \<Rightarrow> True)"

subsection \<open>What the task is given from outside\<close>

text \<open>
  Three things the file uses and does not define: the SHA-256 of \<^verbatim>\<open>crypto\<close> with its hex
  digest, \<^verbatim>\<open>JSON.parse\<close> (\<open>None\<close> when it throws), and the patch modules that
  \<^verbatim>\<open>require('../patch/' + v)\<close> resolves (\<open>None\<close> when \<^verbatim>\<open>require\<close> throws). They are the
  fields of a record that the functions below take as a parameter. A patch module is run
  on the live task and what it throws is caught, so all that is left of a call is the task
  as the module left it: a function from the task and the parsed body to the task.
\<close>

record 'd platform =
  sha256_hex :: "string \<Rightarrow> string"
  JSON_parse :: "string \<Rightarrow> 'd option"
  patch_module :: "string \<Rightarrow> (task \<Rightarrow> 'd \<Rightarrow> task) option"

text \<open>What the HTTP client passes to its callback: an error, or a response with its
  status code, headers and body.\<close>

datatype response =
  Failed string
  | Response (statusCode: int) (res_headers: "(string \<times> string) list")
      (res_body: "string option")

text \<open>\<^verbatim>\<open>err || res.statusCode !== 200\<close>\<close>

definition failed :: "response \<Rightarrow> bool" where
  "failed res = (case res of Failed e \<Rightarrow> True | Response status hs b \<Rightarrow> status \<noteq> 200)"

definition or_empty :: "string option \<Rightarrow> string" where
  "or_empty v = (case v of None \<Rightarrow> [] | Some s \<Rightarrow> s)"

text \<open>\<^verbatim>\<open>makeHash(headers, body)\<close>: the digest of \<^verbatim>\<open>headers['content-type'] || ''\<close> followed by
  \<^verbatim>\<open>body || ''\<close>.\<close>

definition makeHash ::
  "'d platform \<Rightarrow> (string \<times> string) list \<Rightarrow> string option \<Rightarrow> string" where
  "makeHash pf headers body =
     sha256_hex pf (or_empty (map_of headers ''content-type'') @ or_empty body)"

text \<open>\<^verbatim>\<open>var rsrc = { url: self.url }; if (self.timeout) rsrc.timeout = self.timeout*1000;\<close>\<close>

definition ms_timeout :: "task \<Rightarrow> int option" where
  "ms_timeout self =
     (if truthy_num (timeout self) then Some (the (timeout self) * 1000) else None)"

definition rsrc :: "task \<Rightarrow> request" where
  "rsrc self = \<lparr>r_method = None, r_url = url self, r_body = None, r_headers = [],
                r_timeout = ms_timeout self\<rparr>"

subsection \<open>State transitions\<close>

definition cj_start :: "CronJob \<Rightarrow> CronJob" where
  "cj_start j = j\<lparr>cj_running := True\<rparr>"

definition cj_stop :: "CronJob \<Rightarrow> CronJob" where
  "cj_stop j = j\<lparr>cj_running := False\<rparr>"

text \<open>\<^verbatim>\<open>Task.prototype._transit\<close>\<close>

definition transit :: "int \<Rightarrow> task \<Rightarrow> world \<Rightarrow> task \<times> world" where
  "transit newState self w =
     (let (now, w1) = Now w
      in (self\<lparr>state := newState, updated := now\<rparr>, emit ''change'' w1))"

text \<open>\<^verbatim>\<open>if (this._cronJob && !this._cronJob.running) this._cronJob.start();\<close>\<close>

definition start_timer :: "task \<Rightarrow> task" where
  "start_timer self =
     (case u_cronJob self of
        Some j \<Rightarrow> if \<not> cj_running j then self\<lparr>u_cronJob := Some (cj_start j)\<rparr> else self
      | None \<Rightarrow> self)"

text \<open>\<^verbatim>\<open>if (this._cronJob && this._cronJob.running) this._cronJob.stop();\<close>\<close>

definition stop_timer :: "task \<Rightarrow> task" where
  "stop_timer self =
     (case u_cronJob self of
        Some j \<Rightarrow> if cj_running j then self\<lparr>u_cronJob := Some (cj_stop j)\<rparr> else self
      | None \<Rightarrow> self)"

definition active :: "task \<Rightarrow> world \<Rightarrow> task \<times> world" where
  "active self w =
     (if state self \<noteq> ACTIVE
      then (let (self1, w1) = transit ACTIVE self w in (start_timer self1, w1))
      else (self, w))"

definition stop :: "task \<Rightarrow> world \<Rightarrow> task \<times> world" where
  "stop self w =
     (if state self \<noteq> STOPPED
      then (let (self1, w1) = transit STOPPED self w in (stop_timer self1, w1))
      else (self, w))"

definition expire :: "task \<Rightarrow> world \<Rightarrow> task \<times> world" where
  "expire self w =
     (if state self \<noteq> EXPIRED
      then (let (self1, w1) = transit EXPIRED self w in (stop_timer self1, w1))
      else (self, w))"

subsection \<open>The prober\<close>

text \<open>\<^verbatim>\<open>Task.prototype.test\<close> hands the request to the client; \<open>test_response\<close> is the
  callback it registers. The result is what \<^verbatim>\<open>cb\<close> is called with, \<open>None\<close> when no \<^verbatim>\<open>cb\<close>
  was given.\<close>

datatype probe =
  ProbeError "string + int"
  | ProbeResult "(string \<times> string) list" "string option" bool

definition test :: "task \<Rightarrow> world \<Rightarrow> world" where
  "test self w = send (rsrc self) w"

definition test_response :: "'d platform \<Rightarrow> bool \<Rightarrow> task \<Rightarrow> response \<Rightarrow> probe option" where
  "test_response pf has_cb self res =
     (if \<not> has_cb then None
      else if failed res then
        Some (ProbeError (case res of Failed e \<Rightarrow> Inl e | Response status hs b \<Rightarrow> Inr status))
      else Some (ProbeResult (res_headers res) (res_body res)
                   (hash self \<noteq> Some (makeHash pf (res_headers res) (res_body res)))))"

subsection \<open>The run pipeline\<close>

text \<open>\<^verbatim>\<open>Task.prototype.run\<close> up to the call of \<^verbatim>\<open>request\<close>. It returns \<^verbatim>\<open>false\<close> when a run
  is in flight and falls off its end, returning \<^verbatim>\<open>undefined\<close>, otherwise. The parameter
  \<^verbatim>\<open>cb\<close> is not used anywhere in the body.\<close>

definition run ::
  "(task \<Rightarrow> world \<Rightarrow> task \<times> world) \<Rightarrow> task \<Rightarrow> world \<Rightarrow> bool option \<times> task \<times> world" where
  "run cb self w =
     (if \<not> u_running self then (None, self\<lparr>u_running := True\<rparr>, send (rsrc self) w)
      else (Some False, self, w))"

text \<open>\<^verbatim>\<open>function upd(succ)\<close>\<close>

definition upd :: "bool \<Rightarrow> task \<Rightarrow> world \<Rightarrow> task \<times> world" where
  "upd ok self w =
     (let (now, w1) = Now w;
          c = u_counts self;
          c1 = c\<lparr>c_run := c_run c + 1\<rparr>;
          c2 = (if ok then c1\<lparr>c_succ := c_succ c1 + 1\<rparr> else c1\<lparr>c_err := c_err c1 + 1\<rparr>)
      in (self\<lparr>u_running := False,
               u_last := \<lparr>l_succ = Some ok, l_date = Some now\<rparr>,
               u_counts := c2\<rparr>, w1))"

definition rerr :: "task \<Rightarrow> world \<Rightarrow> task \<times> world" where
  "rerr self w = upd False self w"

definition nochange :: "task \<Rightarrow> world \<Rightarrow> task \<times> world" where
  "nochange self w = upd True self w"

text \<open>\<^verbatim>\<open>try { require('../patch/' + v)(self, data); } catch (e) {}\<close>\<close>

definition apply_patch :: "'d platform \<Rightarrow> 'd \<Rightarrow> task \<Rightarrow> string \<Rightarrow> task" where
  "apply_patch pf data self v =
     (case patch_module pf v of None \<Rightarrow> self | Some f \<Rightarrow> f self data)"

text \<open>\<^verbatim>\<open>Task.prototype._patch\<close>. \<^verbatim>\<open>JSON.parse\<close> is called outside the \<^verbatim>\<open>try\<close>, before
  anything is written, so what it throws leaves \<^verbatim>\<open>_patch\<close> with the task as it was on
  entry: \<open>Inl\<close>. A missing body is parsed as the text \<^verbatim>\<open>undefined\<close>.\<close>

definition body_text :: "string option \<Rightarrow> string" where
  "body_text body = (case body of None \<Rightarrow> ''undefined'' | Some b \<Rightarrow> b)"

definition u_patch ::
  "'d platform \<Rightarrow> (string \<times> string) list \<Rightarrow> string option \<Rightarrow> task \<Rightarrow> world
     \<Rightarrow> error + task \<times> world" where
  "u_patch pf headers body self w =
     (if patches self = None \<or> the (patches self) = [] then Inr (self, w)
      else (case JSON_parse pf (body_text body) of
              None \<Rightarrow> Inl SyntaxError
            | Some data \<Rightarrow>
                let self1 = foldl (apply_patch pf data) self (the (patches self));
                    (now, w1) = Now w
                in Inr (self1\<lparr>updated := now\<rparr>, emit ''change'' w1)))"

text \<open>How far a run has got when a callback returns: it is over, it waits for the answer
  to the POST (with the headers, body and hash the second callback closes over), or an
  exception has left the callback. \<open>Rejected\<close> is the call that did not start.\<close>

datatype progress =
  Rejected
  | Finished
  | Awaiting "(string \<times> string) list" "string option" string
  | Thrown error

text \<open>\<^verbatim>\<open>function succ(headers, body, hash)\<close>\<close>

definition succ ::
  "'d platform \<Rightarrow> (string \<times> string) list \<Rightarrow> string option \<Rightarrow> string \<Rightarrow> task \<Rightarrow> world
     \<Rightarrow> progress \<times> task \<times> world" where
  "succ pf headers body h self w =
     (let self1 = self\<lparr>hash := Some h\<rparr>;
          (now, w1) = Now w;
          self2 = self1\<lparr>updated := now\<rparr>;
          w2 = emit ''change'' w1
      in (case u_patch pf headers body self2 w2 of
            Inl e \<Rightarrow> (Thrown e, self2, w2)
          | Inr (self3, w3) \<Rightarrow> (let (self4, w4) = upd True self3 w3 in (Finished, self4, w4))))"

text \<open>The request of lines 184 to 195.\<close>

definition callbk :: "task \<Rightarrow> (string \<times> string) list \<Rightarrow> string option \<Rightarrow> request" where
  "callbk self headers body =
     \<lparr>r_method = Some ''POST'', r_url = the (callback self), r_body = body,
      r_headers = [(''date'', map_of headers ''date''),
                   (''content-type'', map_of headers ''content-type'')],
      r_timeout = ms_timeout self\<rparr>"

text \<open>The callback of the GET, lines 165 to 204.\<close>

definition run_fetched ::
  "'d platform \<Rightarrow> response \<Rightarrow> task \<Rightarrow> world \<Rightarrow> progress \<times> task \<times> world" where
  "run_fetched pf res self w =
     (if failed res then (let (s, w1) = rerr self w in (Finished, s, w1))
      else
        let headers = res_headers res;
            body = res_body res;
            h = makeHash pf headers body
        in if hash self = Some h then (let (s, w1) = nochange self w in (Finished, s, w1))
           else if \<not> truthy_str (callback self) then succ pf headers body h self w
           else (Awaiting headers body h, self, send (callbk self headers body) w))"

text \<open>The callback of the POST, lines 197 to 203.\<close>

definition run_delivered ::
  "'d platform \<Rightarrow> (string \<times> string) list \<Rightarrow> string option \<Rightarrow> string \<Rightarrow> response
     \<Rightarrow> task \<Rightarrow> world \<Rightarrow> progress \<times> task \<times> world" where
  "run_delivered pf headers body h res2 self w =
     (if failed res2 then (let (s, w1) = rerr self w in (Finished, s, w1))
      else succ pf headers body h self w)"

text \<open>What follows a call of \<^verbatim>\<open>run\<close>, with nothing else touching the task in between:
  nothing when the call was rejected; otherwise \<open>res\<close> answers the GET and \<open>res2\<close> the POST,
  if one is made. \<open>run_through\<close> is one invocation from the call to its last callback.\<close>

definition run_after ::
  "'d platform \<Rightarrow> response \<Rightarrow> response \<Rightarrow> bool option \<times> task \<times> world
     \<Rightarrow> progress \<times> task \<times> world" where
  "run_after pf res res2 started =
     (case started of
        (Some r, self1, w1) \<Rightarrow> (Rejected, self1, w1)
      | (None, self1, w1) \<Rightarrow>
          (case run_fetched pf res self1 w1 of
             (Awaiting headers body h, self2, w2) \<Rightarrow>
               run_delivered pf headers body h res2 self2 w2
           | r \<Rightarrow> r))"

definition run_through ::
  "'d platform \<Rightarrow> (task \<Rightarrow> world \<Rightarrow> task \<times> world) \<Rightarrow> response \<Rightarrow> response
     \<Rightarrow> task \<Rightarrow> world \<Rightarrow> progress \<times> task \<times> world" where
  "run_through pf cb res res2 self w = run_after pf res res2 (run cb self w)"

subsection \<open>The scheduler\<close>

text \<open>\<^verbatim>\<open>Task.prototype.sched\<close>. The timer is created stopped and started when the task is
  active.\<close>

definition sched :: "task \<Rightarrow> task" where
  "sched self =
     (let self1 = (case u_cronJob self of
                     Some j \<Rightarrow> self\<lparr>u_cronJob := None\<rparr>
                   | None \<Rightarrow> self)
      in if truthy_cron (cron self1) then
           let once = (case the (cron self1) of CronEpoch n \<Rightarrow> True | CronExpr s \<Rightarrow> False);
               crn = (case the (cron self1) of
                        CronEpoch n \<Rightarrow> AtDate (n * 1000)
                      | CronExpr s \<Rightarrow> Pattern s);
               job = \<lparr>cj_time = crn, cj_once = once, cj_running = False\<rparr>
           in self1\<lparr>u_cronJob := Some (if state self1 = ACTIVE then cj_start job else job)\<rparr>
         else self1)"

text \<open>The tick handler that \<^verbatim>\<open>sched\<close> gives the timer:
  \<^verbatim>\<open>function () { self.run(function () { if (once) self.stop(); }); }\<close>.
  \<open>tick_cb\<close> is the inner function, the argument of \<^verbatim>\<open>run\<close>.\<close>

definition tick_cb :: "CronJob \<Rightarrow> task \<Rightarrow> world \<Rightarrow> task \<times> world" where
  "tick_cb j self w = (if cj_once j then stop self w else (self, w))"

definition onTick :: "CronJob \<Rightarrow> task \<Rightarrow> world \<Rightarrow> bool option \<times> task \<times> world" where
  "onTick j self w = run (tick_cb j) self w"

text \<open>\<^verbatim>\<open>function noop() {}\<close>\<close>

definition noop :: "task \<Rightarrow> world \<Rightarrow> task \<times> world" where
  "noop self w = (self, w)"

subsection \<open>Example inputs\<close>

text \<open>A world whose clock stands at 1700000000 seconds, the task of the specification's
  example (\<^verbatim>\<open>{name: "t1", url: "http://example", cron: 30}\<close>) constructed in it, and
  that task after one run whose GET failed.\<close>

definition w0 :: world where
  "w0 = \<lparr>Date_now = (\<lambda>k. 1700000000000), reads = 0, emitted = [], sent = []\<rparr>"

definition t1_args :: task_json where
  "t1_args = blank\<lparr>j_name := Some ''t1'', j_url := Some ''http://example'',
                   j_cron := Some (CronEpoch 30)\<rparr>"

definition t1 :: task where
  "t1 = \<lparr>name = ''t1'', state = 0, url = ''http://example'', callback = None,
          timeout = None, hash = None, urlTemplate = None, callbackTemplate = None,
          patches = None, cron = Some (CronEpoch 1700000030), expireAt = None,
          created = 1700000000, updated = 1700000000, u_running = False,
          u_counts = \<lparr>c_run = 0, c_err = 0, c_succ = 0\<rparr>,
          u_last = \<lparr>l_succ = None, l_date = None\<rparr>, u_cronJob = None\<rparr>"

definition t1_ran :: task where
  "t1_ran = t1\<lparr>u_counts := \<lparr>c_run = 1, c_err = 1, c_succ = 0\<rparr>,
               u_last := \<lparr>l_succ = Some False, l_date = Some 1700000000\<rparr>\<rparr>"

text \<open>The same task with one patch, and with a callback.\<close>

definition t2 :: task where
  "t2 = t1\<lparr>patches := Some [''p'']\<rparr>"

definition t3 :: task where
  "t3 = t1\<lparr>callback := Some ''http://hook''\<rparr>"

text \<open>A response that is not JSON, and a platform to run the examples on: \<^verbatim>\<open>{}\<close> is
  the one text it parses, it has no patch module, and its digest is a stand-in that returns
  the text it is given (no statement below looks inside a digest).\<close>

definition page :: response where
  "page = Response 200 [(''content-type'', ''text/html'')] (Some ''<html>'')"

definition pf0 :: "unit platform" where
  "pf0 = \<lparr>sha256_hex = (\<lambda>s. s),
          JSON_parse = (\<lambda>s. if s = ''{}'' then Some () else None),
          patch_module = (\<lambda>v. None)\<rparr>"

section \<open>Properties\<close>

subsection \<open>What a step does to the world\<close>

lemma Now_world [simp]:
  "emitted (snd (Now w)) = emitted w" "sent (snd (Now w)) = sent w"
  "reads (snd (Now w)) = Suc (reads w)" "Date_now (snd (Now w)) = Date_now w"
  by (simp_all add: Now_def)

lemma send_world [simp]:
  "emitted (send r w) = emitted w" "sent (send r w) = sent w @ [r]"
  "reads (send r w) = reads w" "Date_now (send r w) = Date_now w"
  by (simp_all add: send_def)

lemma emit_world [simp]:
  "emitted (emit e w) = emitted w @ [e]" "sent (emit e w) = sent w"
  "reads (emit e w) = reads w" "Date_now (emit e w) = Date_now w"
  by (simp_all add: emit_def)

lemma Now_send: "fst (Now (send r w)) = fst (Now w)"
  by (simp add: Now_def send_def)

lemma Now_w0: "fst (Now w0) = 1700000000"
  by (simp add: Now_def w0_def seconds_def)

lemma Now_w0_sent: "fst (Now (send r w0)) = 1700000000"
  by (simp add: Now_send Now_w0)

text \<open>The finalization step, written out.\<close>

lemma upd_eq:
  "upd ok self w =
     (self\<lparr>u_running := False,
           u_last := \<lparr>l_succ = Some ok, l_date = Some (fst (Now w))\<rparr>,
           u_counts := \<lparr>c_run = c_run (u_counts self) + 1,
                        c_err = (if ok then c_err (u_counts self)
                                 else c_err (u_counts self) + 1),
                        c_succ = (if ok then c_succ (u_counts self) + 1
                                  else c_succ (u_counts self))\<rparr>\<rparr>,
      snd (Now w))"
  by (simp add: upd_def Let_def split: prod.splits)

subsection \<open>The steps of a run\<close>

lemma run_ignores_cb: "run cb self w = run cb' self w"
  by (simp add: run_def)

lemma run_through_started:
  "\<not> u_running self \<Longrightarrow>
   run_through pf cb res res2 self w =
     (case run_fetched pf res (self\<lparr>u_running := True\<rparr>) (send (rsrc self) w) of
        (Awaiting headers body h, self2, w2) \<Rightarrow> run_delivered pf headers body h res2 self2 w2
      | r \<Rightarrow> r)"
  by (simp add: run_through_def run_after_def run_def)

lemma run_fetched_changed_no_callback:
  assumes "\<not> failed res"
    and "hash self \<noteq> Some (makeHash pf (res_headers res) (res_body res))"
    and "\<not> truthy_str (callback self)"
  shows "run_fetched pf res self w =
           succ pf (res_headers res) (res_body res)
             (makeHash pf (res_headers res) (res_body res)) self w"
  using assms by (simp add: run_fetched_def Let_def)

lemma run_fetched_changed_callback:
  assumes "\<not> failed res"
    and "hash self \<noteq> Some (makeHash pf (res_headers res) (res_body res))"
    and "truthy_str (callback self)"
  shows "run_fetched pf res self w =
           (Awaiting (res_headers res) (res_body res)
              (makeHash pf (res_headers res) (res_body res)), self,
            send (callbk self (res_headers res) (res_body res)) w)"
  using assms by (simp add: run_fetched_def Let_def)

lemma succ_no_patches:
  assumes "patches self = None \<or> patches self = Some []"
  shows "succ pf headers body h self w =
           (Finished,
            upd True (self\<lparr>hash := Some h, updated := fst (Now w)\<rparr>)
              (emit ''change'' (snd (Now w))))"
  using assms by (auto simp: succ_def u_patch_def Let_def case_prod_beta)

lemma succ_parsed:
  assumes "patches self = Some ps" and "ps \<noteq> []"
    and "JSON_parse pf (body_text body) = Some data"
  shows "succ pf headers body h self w =
           (Finished,
            upd True
              ((foldl (apply_patch pf data)
                  (self\<lparr>hash := Some h, updated := fst (Now w)\<rparr>) ps)
                 \<lparr>updated := fst (Now (emit ''change'' (snd (Now w))))\<rparr>)
              (emit ''change'' (snd (Now (emit ''change'' (snd (Now w)))))))"
  using assms by (simp add: succ_def u_patch_def Let_def case_prod_beta)

lemma succ_parse_failure:
  assumes "patches self = Some ps" and "ps \<noteq> []"
    and "JSON_parse pf (body_text body) = None"
  shows "succ pf headers body h self w =
           (Thrown SyntaxError, self\<lparr>hash := Some h, updated := fst (Now w)\<rparr>,
            emit ''change'' (snd (Now w)))"
  using assms by (simp add: succ_def u_patch_def Let_def case_prod_beta)

subsection \<open>The examples\<close>

lemma Task_t1: "Task w0 (Some t1_args) = Inr (t1, w0\<lparr>reads := 2\<rparr>)"
  by (simp add: Task_def Merge_def blank_def t1_args_def t1_def w0_def truthy_str_def
      truthy_num_def norm_cron_def norm_expireAt_def norm_created_def Now_def seconds_def
      ACTIVE_def)

lemma Task_t1_absolute:
  "Task w0 (Some (t1_args\<lparr>j_cron := Some (CronEpoch 1800000000)\<rparr>))
     = Inr (t1\<lparr>cron := Some (CronEpoch 1800000000)\<rparr>, w0\<lparr>reads := 1\<rparr>)"
  by (simp add: Task_def Merge_def blank_def t1_args_def t1_def w0_def truthy_str_def
      truthy_num_def norm_cron_def norm_expireAt_def norm_created_def Now_def seconds_def
      ACTIVE_def)

lemma t1_ran_reached:
  "run_through pf cb (Failed e) res2 t1 (w0\<lparr>reads := 2\<rparr>)
     = (Finished, t1_ran, (send (rsrc t1) w0)\<lparr>reads := 3\<rparr>)"
  by (simp add: run_through_def run_after_def run_def run_fetched_def failed_def rerr_def
      upd_eq t1_def t1_ran_def w0_def Now_def send_def seconds_def)

lemma sched_t1:
  "sched t1 = t1\<lparr>u_cronJob := Some \<lparr>cj_time = AtDate 1700000030000, cj_once = True,
                                    cj_running = True\<rparr>\<rparr>"
  by (simp add: sched_def t1_def truthy_cron_def Let_def ACTIVE_def cj_start_def)

lemma page_ok: "\<not> failed page"
  by (simp add: page_def failed_def)

subsection \<open>Single flight\<close>

text \<open>
  C4. While a run is in flight (\<^verbatim>\<open>_running\<close> is true), a further call of \<^verbatim>\<open>run\<close> returns
  \<^verbatim>\<open>false\<close> at once: it hands no request to the HTTP client, reads no clock, emits nothing,
  and leaves every field of the task, \<^verbatim>\<open>_counts\<close> and \<^verbatim>\<open>_last\<close> among them, as it was.
\<close>

theorem run_rejected_in_flight:
  "u_running self \<Longrightarrow> run cb self w = (Some False, self, w)"
  by (simp add: run_def)

theorem run_rejected_in_flight_witness:
  "u_running (t1\<lparr>u_running := True\<rparr>) \<and>
   run noop (t1\<lparr>u_running := True\<rparr>) w0 = (Some False, t1\<lparr>u_running := True\<rparr>, w0)"
proof -
  have h: "u_running (t1\<lparr>u_running := True\<rparr>)" by simp
  from run_rejected_in_flight [OF h, of noop w0] h show ?thesis by simp
qed

subsection \<open>Construction\<close>

text \<open>
  C8. When construction succeeds and the supplied \<^verbatim>\<open>cron\<close> is a number \<open>n\<close>: if \<open>n\<close> is
  below 1,000,000 the stored \<^verbatim>\<open>cron\<close> is the construction time (what \<^verbatim>\<open>_Now()\<close> returns
  on the constructor's first reading of the clock) plus \<open>n\<close>; if \<open>n\<close> is at least
  1,000,000 the stored \<^verbatim>\<open>cron\<close> is \<open>n\<close>.
\<close>

theorem Task_cron_normalised:
  assumes "Task w (Some a) = Inr (t, w')" and "j_cron a = Some (CronEpoch n)"
  shows "(n < 1000000 \<longrightarrow> cron t = Some (CronEpoch (fst (Now w) + n))) \<and>
         (1000000 \<le> n \<longrightarrow> cron t = Some (CronEpoch n))"
  using assms
  by (auto simp: Task_def Merge_def norm_cron_def Let_def split: if_splits prod.splits)

theorem Task_cron_normalised_witness:
  "Task w0 (Some t1_args) = Inr (t1, w0\<lparr>reads := 2\<rparr>) \<and>
   j_cron t1_args = Some (CronEpoch 30) \<and> fst (Now w0) = 1700000000 \<and>
   cron t1 = Some (CronEpoch 1700000030) \<and>
   Task w0 (Some (t1_args\<lparr>j_cron := Some (CronEpoch 1800000000)\<rparr>))
     = Inr (t1\<lparr>cron := Some (CronEpoch 1800000000)\<rparr>, w0\<lparr>reads := 1\<rparr>) \<and>
   cron (t1\<lparr>cron := Some (CronEpoch 1800000000)\<rparr>) = Some (CronEpoch 1800000000)"
proof -
  have h: "j_cron t1_args = Some (CronEpoch 30)" by (simp add: t1_args_def)
  have g: "j_cron (t1_args\<lparr>j_cron := Some (CronEpoch 1800000000)\<rparr>)
             = Some (CronEpoch 1800000000)" by simp
  from Task_cron_normalised [OF Task_t1 h] Task_cron_normalised [OF Task_t1_absolute g]
    Task_t1 Task_t1_absolute h Now_w0
  show ?thesis by simp
qed

subsection \<open>State transitions\<close>

text \<open>
  C9. Each of \<^verbatim>\<open>active()\<close>, \<^verbatim>\<open>stop()\<close> and \<^verbatim>\<open>expire()\<close> called on a task that is already in
  the state it targets changes nothing: no field, no reading of the clock, no event. Called
  on a task in another state, it sets \<^verbatim>\<open>state\<close> to its target, sets \<^verbatim>\<open>updated\<close> to the
  time of the call, and emits exactly one \<^verbatim>\<open>change\<close> event.
\<close>

theorem transitions_idempotent:
  "(state self = ACTIVE \<longrightarrow> active self w = (self, w)) \<and>
   (state self = STOPPED \<longrightarrow> stop self w = (self, w)) \<and>
   (state self = EXPIRED \<longrightarrow> expire self w = (self, w)) \<and>
   (state self \<noteq> ACTIVE \<longrightarrow>
      state (fst (active self w)) = ACTIVE \<and> updated (fst (active self w)) = fst (Now w) \<and>
      emitted (snd (active self w)) = emitted w @ [''change'']) \<and>
   (state self \<noteq> STOPPED \<longrightarrow>
      state (fst (stop self w)) = STOPPED \<and> updated (fst (stop self w)) = fst (Now w) \<and>
      emitted (snd (stop self w)) = emitted w @ [''change'']) \<and>
   (state self \<noteq> EXPIRED \<longrightarrow>
      state (fst (expire self w)) = EXPIRED \<and> updated (fst (expire self w)) = fst (Now w) \<and>
      emitted (snd (expire self w)) = emitted w @ [''change''])"
  by (auto simp: active_def stop_def expire_def transit_def start_timer_def stop_timer_def
      Let_def case_prod_beta split: option.splits)

theorem transitions_idempotent_witness:
  "state t1 = ACTIVE \<and> active t1 w0 = (t1, w0) \<and>
   state t1 \<noteq> STOPPED \<and> state (fst (stop t1 w0)) = STOPPED \<and>
   updated (fst (stop t1 w0)) = 1700000000 \<and> emitted (snd (stop t1 w0)) = [''change''] \<and>
   state t1 \<noteq> EXPIRED \<and> state (fst (expire t1 w0)) = EXPIRED \<and>
   updated (fst (expire t1 w0)) = 1700000000 \<and> emitted (snd (expire t1 w0)) = [''change'']"
proof -
  have h: "state t1 = ACTIVE" "state t1 \<noteq> STOPPED" "state t1 \<noteq> EXPIRED"
    by (simp_all add: t1_def ACTIVE_def STOPPED_def EXPIRED_def)
  have e: "emitted w0 = []" by (simp add: w0_def)
  from transitions_idempotent [of t1 w0] h e Now_w0 show ?thesis by simp
qed

subsection \<open>The prober\<close>

text \<open>
  C10. For a task whose \<^verbatim>\<open>hash\<close> is absent, \<^verbatim>\<open>test\<close> reports every response with status 200
  as modified: the callback is given the headers, the body and \<^verbatim>\<open>true\<close>, whatever the
  digest of the response is.
\<close>

theorem test_absent_hash_modified:
  "hash self = None \<Longrightarrow> \<not> failed res \<Longrightarrow>
   test_response pf True self res = Some (ProbeResult (res_headers res) (res_body res) True)"
  by (simp add: test_response_def)

theorem test_absent_hash_modified_witness:
  "hash t1 = None \<and> \<not> failed page \<and>
   test_response pf0 True t1 page =
     Some (ProbeResult [(''content-type'', ''text/html'')] (Some ''<html>'') True)"
proof -
  have h: "hash t1 = None" by (simp add: t1_def)
  from test_absent_hash_modified [OF h page_ok, of pf0] h page_ok show ?thesis
    by (simp add: page_def)
qed

subsection \<open>Runs that finish\<close>

text \<open>
  C6. A run that starts and whose response (status 200) hashes to the stored \<^verbatim>\<open>hash\<close>
  leaves \<^verbatim>\<open>hash\<close> and \<^verbatim>\<open>updated\<close> as they were and emits no event; it adds one to
  \<^verbatim>\<open>_counts.run\<close> and to \<^verbatim>\<open>_counts.succ\<close>, leaves \<^verbatim>\<open>_counts.err\<close> alone, and records
  \<^verbatim>\<open>_last.succ = true\<close>.
\<close>

theorem run_same_hash:
  assumes "\<not> u_running self" and "\<not> failed res"
    and "hash self = Some (makeHash pf (res_headers res) (res_body res))"
    and "run_through pf cb res res2 self w = (p, self', w')"
  shows "p = Finished \<and> hash self' = hash self \<and> updated self' = updated self \<and>
         emitted w' = emitted w \<and>
         c_run (u_counts self') = c_run (u_counts self) + 1 \<and>
         c_succ (u_counts self') = c_succ (u_counts self) + 1 \<and>
         c_err (u_counts self') = c_err (u_counts self) \<and>
         l_succ (u_last self') = Some True"
  using assms
  by (auto simp: run_through_started run_fetched_def nochange_def upd_eq Let_def)

theorem run_same_hash_witness:
  "\<not> u_running (t1\<lparr>hash := Some (makeHash pf0 (res_headers page) (res_body page))\<rparr>) \<and>
   \<not> failed page \<and>
   fst (run_through pf0 noop page page
          (t1\<lparr>hash := Some (makeHash pf0 (res_headers page) (res_body page))\<rparr>) w0)
     = Finished \<and>
   emitted (snd (snd (run_through pf0 noop page page
          (t1\<lparr>hash := Some (makeHash pf0 (res_headers page) (res_body page))\<rparr>) w0))) = [] \<and>
   u_counts (fst (snd (run_through pf0 noop page page
          (t1\<lparr>hash := Some (makeHash pf0 (res_headers page) (res_body page))\<rparr>) w0)))
     = \<lparr>c_run = 1, c_err = 0, c_succ = 1\<rparr>"
proof -
  define t where "t = t1\<lparr>hash := Some (makeHash pf0 (res_headers page) (res_body page))\<rparr>"
  have h1: "\<not> u_running t" by (simp add: t_def t1_def)
  have h2: "hash t = Some (makeHash pf0 (res_headers page) (res_body page))"
    by (simp add: t_def)
  have c: "u_counts t = \<lparr>c_run = 0, c_err = 0, c_succ = 0\<rparr>" by (simp add: t_def t1_def)
  have e: "emitted w0 = []" by (simp add: w0_def)
  obtain p s w where r: "run_through pf0 noop page page t w0 = (p, s, w)"
    by (cases "run_through pf0 noop page page t w0") auto
  from run_same_hash [OF h1 page_ok h2 r] h1 page_ok c e r show ?thesis
    unfolding t_def [symmetric] by simp
qed

text \<open>
  C5. A run that starts, whose response (status 200) hashes differently from the stored
  \<^verbatim>\<open>hash\<close>, on a task with a callback, and whose POST to the callback fails or is answered
  with a status other than 200: \<^verbatim>\<open>hash\<close> and \<^verbatim>\<open>updated\<close> stay as they were, no event is
  emitted, \<^verbatim>\<open>_counts.err\<close> grows by one and \<^verbatim>\<open>_last.succ\<close> is \<^verbatim>\<open>false\<close>. The run has sent
  the GET and the POST, and the next run, given the same response, starts and sends the
  same POST again.
\<close>

theorem run_callback_failure:
  assumes "\<not> u_running self" and "\<not> failed res"
    and "hash self \<noteq> Some (makeHash pf (res_headers res) (res_body res))"
    and "truthy_str (callback self)" and "failed res2"
    and "run_through pf cb res res2 self w = (p, self', w')"
  shows "p = Finished \<and> hash self' = hash self \<and> updated self' = updated self \<and>
         emitted w' = emitted w \<and>
         c_err (u_counts self') = c_err (u_counts self) + 1 \<and>
         c_succ (u_counts self') = c_succ (u_counts self) \<and>
         l_succ (u_last self') = Some False \<and>
         sent w' = sent w @ [rsrc self, callbk self (res_headers res) (res_body res)] \<and>
         run cb self' w' = (None, self'\<lparr>u_running := True\<rparr>, send (rsrc self) w') \<and>
         run_fetched pf res (self'\<lparr>u_running := True\<rparr>) (send (rsrc self) w') =
           (Awaiting (res_headers res) (res_body res)
              (makeHash pf (res_headers res) (res_body res)),
            self'\<lparr>u_running := True\<rparr>,
            send (callbk self (res_headers res) (res_body res)) (send (rsrc self) w'))"
  using assms
  by (auto simp: run_through_started run_def run_fetched_def run_delivered_def rerr_def
      upd_eq Let_def callbk_def rsrc_def ms_timeout_def)

theorem run_callback_failure_witness:
  "\<not> u_running t3 \<and> \<not> failed page \<and> truthy_str (callback t3) \<and>
   failed (Response 500 [] None) \<and>
   hash t3 \<noteq> Some (makeHash pf0 (res_headers page) (res_body page)) \<and>
   fst (run_through pf0 noop page (Response 500 [] None) t3 w0) = Finished \<and>
   hash (fst (snd (run_through pf0 noop page (Response 500 [] None) t3 w0))) = None \<and>
   emitted (snd (snd (run_through pf0 noop page (Response 500 [] None) t3 w0))) = [] \<and>
   c_err (u_counts (fst (snd (run_through pf0 noop page (Response 500 [] None) t3 w0)))) = 1"
proof -
  have h1: "\<not> u_running t3" by (simp add: t3_def t1_def)
  have h3: "hash t3 \<noteq> Some (makeHash pf0 (res_headers page) (res_body page))"
    by (simp add: t3_def t1_def)
  have h4: "truthy_str (callback t3)" by (simp add: t3_def truthy_str_def)
  have h5: "failed (Response 500 [] None)" by (simp add: failed_def)
  have c: "c_err (u_counts t3) = 0" "hash t3 = None" by (simp_all add: t3_def t1_def)
  have e: "emitted w0 = []" by (simp add: w0_def)
  obtain p s w where r: "run_through pf0 noop page (Response 500 [] None) t3 w0 = (p, s, w)"
    by (cases "run_through pf0 noop page (Response 500 [] None) t3 w0") auto
  from run_callback_failure [OF h1 page_ok h3 h4 h5 r] h1 page_ok h3 h4 h5 c e r
  show ?thesis by simp
qed

subsection \<open>Serialization and reconstruction\<close>

text \<open>
  C1, as the specification states it, asks that the constructor applied to \<^verbatim>\<open>toJSON\<close> of a
  task gives back every serialized field but \<^verbatim>\<open>_running\<close>. The task \<open>t1_ran\<close> has run
  once (\<open>t1_ran_reached\<close>); reconstructed from its serialized form it is \<open>t1\<close> again, with
  \<^verbatim>\<open>_counts\<close> at zero and \<^verbatim>\<open>_last\<close> empty.
\<close>

theorem Task_toJSON_resets_counts:
  "Task w0 (Some (toJSON t1_ran)) = Inr (t1, w0) \<and>
   u_counts t1_ran = \<lparr>c_run = 1, c_err = 1, c_succ = 0\<rparr> \<and>
   u_counts t1 = \<lparr>c_run = 0, c_err = 0, c_succ = 0\<rparr> \<and>
   u_last t1_ran = \<lparr>l_succ = Some False, l_date = Some 1700000000\<rparr> \<and>
   u_last t1 = \<lparr>l_succ = None, l_date = None\<rparr>"
  by (simp add: Task_def Merge_def toJSON_def t1_def t1_ran_def truthy_str_def
      truthy_num_def norm_cron_def norm_expireAt_def norm_created_def ACTIVE_def)

text \<open>
  C1, amended. For a task whose \<^verbatim>\<open>name\<close> and \<^verbatim>\<open>url\<close> are not empty, whose \<^verbatim>\<open>created\<close> and
  \<^verbatim>\<open>updated\<close> are not 0, and whose \<^verbatim>\<open>cron\<close> and \<^verbatim>\<open>expireAt\<close>, where they are numbers, are
  absolute (at least 1,000,000, or an \<^verbatim>\<open>expireAt\<close> of 0), the constructor applied to
  \<^verbatim>\<open>toJSON\<close> of the task succeeds without reading the clock and returns the task with
  \<^verbatim>\<open>name\<close>, \<^verbatim>\<open>state\<close>, \<^verbatim>\<open>url\<close>, \<^verbatim>\<open>callback\<close>, \<^verbatim>\<open>timeout\<close>, \<^verbatim>\<open>hash\<close>, \<^verbatim>\<open>urlTemplate\<close>,
  \<^verbatim>\<open>callbackTemplate\<close>, \<^verbatim>\<open>patches\<close>, \<^verbatim>\<open>cron\<close>, \<^verbatim>\<open>expireAt\<close>, \<^verbatim>\<open>created\<close> and \<^verbatim>\<open>updated\<close>
  as they were, and with the transient fields at their initial values: \<^verbatim>\<open>_running\<close>
  false, \<^verbatim>\<open>_counts\<close> all zero, \<^verbatim>\<open>_last\<close> with \<^verbatim>\<open>succ\<close> and \<^verbatim>\<open>date\<close> null, and no timer.
\<close>

theorem Task_toJSON_roundtrip:
  assumes "name self \<noteq> []" and "url self \<noteq> []"
    and "created self \<noteq> 0" and "updated self \<noteq> 0"
    and "absolute_cron (cron self)" and "absolute_expireAt (expireAt self)"
  shows "Task w (Some (toJSON self)) =
           Inr (self\<lparr>u_running := False,
                     u_counts := \<lparr>c_run = 0, c_err = 0, c_succ = 0\<rparr>,
                     u_last := \<lparr>l_succ = None, l_date = None\<rparr>,
                     u_cronJob := None\<rparr>, w)"
proof -
  have c: "norm_cron (cron self) w = (cron self, w)"
    using assms(5)
    by (auto simp: norm_cron_def absolute_cron_def split: option.splits cron_val.splits)
  have e: "norm_expireAt (expireAt self) w = (expireAt self, w)"
    using assms(6) by (auto simp: norm_expireAt_def absolute_expireAt_def split: option.splits)
  have p: "(case map_option PatchNames (patches self) of None \<Rightarrow> None
            | Some (PatchName s) \<Rightarrow> Some [s] | Some (PatchNames xs) \<Rightarrow> Some xs)
           = patches self"
    by (cases "patches self") simp_all
  show ?thesis
    using assms(1-4) c e p
    by (cases self)
      (simp add: Task_def Merge_def toJSON_def truthy_str_def truthy_num_def
        norm_created_def ACTIVE_def)
qed

theorem Task_toJSON_roundtrip_witness:
  "name t1_ran \<noteq> [] \<and> url t1_ran \<noteq> [] \<and> created t1_ran \<noteq> 0 \<and> updated t1_ran \<noteq> 0 \<and>
   absolute_cron (cron t1_ran) \<and> absolute_expireAt (expireAt t1_ran) \<and>
   Task w0 (Some (toJSON t1_ran)) =
     Inr (t1_ran\<lparr>u_running := False,
                 u_counts := \<lparr>c_run = 0, c_err = 0, c_succ = 0\<rparr>,
                 u_last := \<lparr>l_succ = None, l_date = None\<rparr>,
                 u_cronJob := None\<rparr>, w0)"
proof -
  have h: "name t1_ran \<noteq> []" "url t1_ran \<noteq> []" "created t1_ran \<noteq> 0" "updated t1_ran \<noteq> 0"
    "absolute_cron (cron t1_ran)" "absolute_expireAt (expireAt t1_ran)"
    by (simp_all add: t1_ran_def t1_def absolute_cron_def absolute_expireAt_def)
  from Task_toJSON_roundtrip [OF h, of w0] h show ?thesis by simp
qed

subsection \<open>The body that does not parse\<close>

text \<open>\<^verbatim>\<open>_patch\<close> calls \<^verbatim>\<open>JSON.parse\<close> outside its \<^verbatim>\<open>try\<close>. When the task has patches and the
  body is not JSON, the exception leaves \<^verbatim>\<open>succ\<close> after the hash, the timestamp and the
  first event, and before \<^verbatim>\<open>upd\<close>.\<close>

lemma run_through_parse_failure:
  assumes "\<not> u_running self" and "\<not> failed res"
    and "hash self \<noteq> Some (makeHash pf (res_headers res) (res_body res))"
    and "\<not> truthy_str (callback self) \<or> \<not> failed res2"
    and "patches self = Some ps" and "ps \<noteq> []"
    and "JSON_parse pf (body_text (res_body res)) = None"
  shows "\<exists>w'. run_through pf cb res res2 self w =
           (Thrown SyntaxError,
            self\<lparr>u_running := True,
                  hash := Some (makeHash pf (res_headers res) (res_body res)),
                  updated := fst (Now w)\<rparr>, w') \<and>
           emitted w' = emitted w @ [''change''] \<and> reads w' = Suc (reads w)"
proof (cases "truthy_str (callback self)")
  case False
  then show ?thesis
    using assms(1-3,5-7)
    by (simp add: run_through_started run_fetched_changed_no_callback succ_parse_failure
        Now_send)
next
  case True
  then have "\<not> failed res2" using assms(4) by simp
  then show ?thesis
    using True assms(1-3,5-7)
    by (simp add: run_through_started run_fetched_changed_callback run_delivered_def
        succ_parse_failure Now_send)
qed

lemma t2_facts:
  "\<not> u_running t2" "patches t2 = Some [''p'']" "\<not> truthy_str (callback t2)"
  "hash t2 \<noteq> Some (makeHash pf0 (res_headers page) (res_body page))"
  "JSON_parse pf0 (body_text (res_body page)) = None"
  "u_counts t2 = \<lparr>c_run = 0, c_err = 0, c_succ = 0\<rparr>"
  "u_last t2 = \<lparr>l_succ = None, l_date = None\<rparr>"
  by (simp_all add: t2_def t1_def truthy_str_def pf0_def page_def body_text_def)

text \<open>
  C2 fails on the code. A run that starts, fetches content with a new hash, reaches
  \<^verbatim>\<open>succ\<close> (no callback, or a callback that answers 200) on a task with at least one patch,
  and whose body \<^verbatim>\<open>JSON.parse\<close> rejects, ends in the exception: the finalization step is
  not executed. \<^verbatim>\<open>_running\<close> is still true, \<^verbatim>\<open>_counts\<close> and \<^verbatim>\<open>_last\<close> are as before the
  run, and every later call of \<^verbatim>\<open>run\<close> is rejected.
\<close>

theorem run_parse_failure_skips_upd:
  assumes "\<not> u_running self" and "\<not> failed res"
    and "hash self \<noteq> Some (makeHash pf (res_headers res) (res_body res))"
    and "\<not> truthy_str (callback self) \<or> \<not> failed res2"
    and "patches self = Some ps" and "ps \<noteq> []"
    and "JSON_parse pf (body_text (res_body res)) = None"
    and "run_through pf cb res res2 self w = (p, self', w')"
  shows "p = Thrown SyntaxError \<and> u_running self' \<and> u_counts self' = u_counts self \<and>
         u_last self' = u_last self \<and> run cb' self' w' = (Some False, self', w')"
  using run_through_parse_failure [OF assms(1-7), of cb w] assms(8)
  by (auto simp: run_def)

theorem run_parse_failure_skips_upd_witness:
  "\<not> u_running t2 \<and> \<not> failed page \<and> patches t2 = Some [''p''] \<and>
   JSON_parse pf0 (body_text (res_body page)) = None \<and>
   fst (run_through pf0 noop page page t2 w0) = Thrown SyntaxError \<and>
   u_running (fst (snd (run_through pf0 noop page page t2 w0))) \<and>
   u_counts (fst (snd (run_through pf0 noop page page t2 w0)))
     = \<lparr>c_run = 0, c_err = 0, c_succ = 0\<rparr> \<and>
   u_last (fst (snd (run_through pf0 noop page page t2 w0)))
     = \<lparr>l_succ = None, l_date = None\<rparr>"
proof -
  have d: "\<not> truthy_str (callback t2) \<or> \<not> failed page" by (simp add: t2_facts)
  have n: "[''p''] \<noteq> ([] :: string list)" by simp
  obtain p s w where r: "run_through pf0 noop page page t2 w0 = (p, s, w)"
    by (cases "run_through pf0 noop page page t2 w0") auto
  from run_parse_failure_skips_upd
    [OF t2_facts(1) page_ok t2_facts(4) d t2_facts(2) n t2_facts(5) r]
    t2_facts page_ok r
  show ?thesis by simp
qed

text \<open>
  C7 fails on the code, by the same defect. A run that starts on a task with no callback and
  at least one patch, fetches content with a new hash, and whose body \<^verbatim>\<open>JSON.parse\<close>
  rejects: the new hash is stored and \<^verbatim>\<open>updated\<close> is set, but exactly one \<^verbatim>\<open>change\<close> event
  is emitted, not two, and \<^verbatim>\<open>_counts.succ\<close> is not incremented.
\<close>

theorem run_no_callback_parse_failure:
  assumes "\<not> u_running self" and "\<not> failed res"
    and "hash self \<noteq> Some (makeHash pf (res_headers res) (res_body res))"
    and "\<not> truthy_str (callback self)"
    and "patches self = Some ps" and "ps \<noteq> []"
    and "JSON_parse pf (body_text (res_body res)) = None"
    and "run_through pf cb res res2 self w = (p, self', w')"
  shows "hash self' = Some (makeHash pf (res_headers res) (res_body res)) \<and>
         updated self' = fst (Now w) \<and>
         emitted w' = emitted w @ [''change''] \<and>
         c_succ (u_counts self') = c_succ (u_counts self)"
proof -
  have "\<not> truthy_str (callback self) \<or> \<not> failed res2" using assms(4) by simp
  from run_through_parse_failure [OF assms(1-3) this assms(5-7), of cb w] assms(8)
  show ?thesis by auto
qed

theorem run_no_callback_parse_failure_witness:
  "\<not> u_running t2 \<and> \<not> failed page \<and> \<not> truthy_str (callback t2) \<and>
   patches t2 = Some [''p''] \<and> JSON_parse pf0 (body_text (res_body page)) = None \<and>
   emitted (snd (snd (run_through pf0 noop page page t2 w0))) = [''change''] \<and>
   c_succ (u_counts (fst (snd (run_through pf0 noop page page t2 w0)))) = 0"
proof -
  have n: "[''p''] \<noteq> ([] :: string list)" by simp
  have e: "emitted w0 = []" by (simp add: w0_def)
  obtain p s w where r: "run_through pf0 noop page page t2 w0 = (p, s, w)"
    by (cases "run_through pf0 noop page page t2 w0") auto
  from run_no_callback_parse_failure
    [OF t2_facts(1) page_ok t2_facts(4) t2_facts(3) t2_facts(2) n t2_facts(5) r]
    t2_facts page_ok e r
  show ?thesis by simp
qed

text \<open>What C2 and C7 say does hold on the other side of the defect: with no patches, and
  with patches and a body that parses.\<close>

lemma run_through_no_patches_finalizes:
  assumes "\<not> u_running self" and "patches self = None \<or> patches self = Some []"
    and "run_through pf cb res res2 self w = (p, self', w')"
  shows "p = Finished \<and> \<not> u_running self' \<and>
         c_run (u_counts self') = c_run (u_counts self) + 1 \<and>
         c_succ (u_counts self') + c_err (u_counts self')
           = c_succ (u_counts self) + c_err (u_counts self) + 1 \<and>
         l_succ (u_last self')
           = Some (c_succ (u_counts self') = c_succ (u_counts self) + 1) \<and>
         l_date (u_last self') \<noteq> None"
  using assms
  apply (simp add: run_through_started)
  apply (auto simp: run_fetched_def run_delivered_def succ_no_patches upd_eq rerr_def
      nochange_def Let_def split: if_splits)
  done

lemma run_no_callback_no_patches:
  assumes "\<not> u_running self" and "\<not> failed res"
    and "hash self \<noteq> Some (makeHash pf (res_headers res) (res_body res))"
    and "\<not> truthy_str (callback self)"
    and "patches self = None \<or> patches self = Some []"
    and "run_through pf cb res res2 self w = (p, self', w')"
  shows "p = Finished \<and> hash self' = Some (makeHash pf (res_headers res) (res_body res)) \<and>
         updated self' = fst (Now w) \<and>
         c_succ (u_counts self') = c_succ (u_counts self) + 1 \<and>
         emitted w' = emitted w @ [''change'']"
  using assms
  by (auto simp: run_through_started run_fetched_changed_no_callback succ_no_patches upd_eq
      Now_send)

lemma run_no_callback_parsed:
  assumes "\<not> u_running self" and "\<not> failed res"
    and "hash self \<noteq> Some (makeHash pf (res_headers res) (res_body res))"
    and "\<not> truthy_str (callback self)"
    and "patches self = Some ps" and "ps \<noteq> []"
    and "JSON_parse pf (body_text (res_body res)) = Some data"
    and "run_through pf cb res res2 self w = (p, self', w')"
  shows "p = Finished \<and> \<not> u_running self' \<and> l_succ (u_last self') = Some True \<and>
         emitted w' = emitted w @ [''change'', ''change'']"
  using assms
  by (auto simp: run_through_started run_fetched_changed_no_callback succ_parsed upd_eq)

text \<open>When no patch module touches \<^verbatim>\<open>hash\<close> or \<^verbatim>\<open>_counts\<close>, the new hash and the
  count survive the patch pipeline.\<close>

lemma foldl_apply_patch_kept:
  assumes "\<And>s v. hash (apply_patch pf data s v) = hash s"
    and "\<And>s v. u_counts (apply_patch pf data s v) = u_counts s"
  shows "hash (foldl (apply_patch pf data) s ps) = hash s \<and>
         u_counts (foldl (apply_patch pf data) s ps) = u_counts s"
  by (induction ps arbitrary: s) (simp_all add: assms)

lemma run_no_callback_parsed_kept:
  assumes "\<not> u_running self" and "\<not> failed res"
    and "hash self \<noteq> Some (makeHash pf (res_headers res) (res_body res))"
    and "\<not> truthy_str (callback self)"
    and "patches self = Some ps" and "ps \<noteq> []"
    and "JSON_parse pf (body_text (res_body res)) = Some data"
    and "\<And>s v. hash (apply_patch pf data s v) = hash s"
    and "\<And>s v. u_counts (apply_patch pf data s v) = u_counts s"
    and "run_through pf cb res res2 self w = (p, self', w')"
  shows "hash self' = Some (makeHash pf (res_headers res) (res_body res)) \<and>
         updated self' = seconds (Date_now w (Suc (reads w))) \<and>
         c_succ (u_counts self') = c_succ (u_counts self) + 1 \<and>
         emitted w' = emitted w @ [''change'', ''change'']"
  using assms(1-7,10) foldl_apply_patch_kept [of pf data, OF assms(8,9)]
  by (auto simp: run_through_started run_fetched_changed_no_callback succ_parsed upd_eq Now_def)

subsection \<open>The one-shot timer\<close>

text \<open>
  C3 fails on the code. The tick handler of a one-shot timer passes \<^verbatim>\<open>run\<close> a callback
  that calls \<^verbatim>\<open>stop\<close>, and \<^verbatim>\<open>run\<close> never calls the callback it is given. So the run that
  the tick of a one-shot timer starts, on a task without patches, ends with \<^verbatim>\<open>state\<close> as it
  was before the tick (for a scheduled, started timer: ACTIVE, not STOPPED) and with the
  timer as it was.
\<close>

theorem one_shot_tick_keeps_state:
  assumes "cj_once j" and "patches self = None"
    and "run_after pf res res2 (onTick j self w) = (p, self', w')"
  shows "state self' = state self \<and> u_cronJob self' = u_cronJob self"
proof -
  have r: "run_through pf (tick_cb j) res res2 self w = (p, self', w')"
    using assms(3) by (simp add: onTick_def run_through_def)
  show ?thesis
  proof (cases "u_running self")
    case True
    then show ?thesis using r by (simp add: run_through_def run_after_def run_def)
  next
    case False
    then show ?thesis
      using assms(2) r
      by (auto simp: run_through_started run_fetched_def run_delivered_def succ_no_patches
          upd_eq rerr_def nochange_def Let_def split: if_splits)
  qed
qed

theorem one_shot_tick_keeps_state_witness:
  "u_cronJob (sched t1) =
     Some \<lparr>cj_time = AtDate 1700000030000, cj_once = True, cj_running = True\<rparr> \<and>
   patches (sched t1) = None \<and> state (sched t1) = ACTIVE \<and>
   fst (onTick \<lparr>cj_time = AtDate 1700000030000, cj_once = True, cj_running = True\<rparr>
          (sched t1) w0) = None \<and>
   state (fst (snd (run_after pf0 page page
     (onTick \<lparr>cj_time = AtDate 1700000030000, cj_once = True, cj_running = True\<rparr>
        (sched t1) w0)))) = ACTIVE \<and>
   u_cronJob (fst (snd (run_after pf0 page page
     (onTick \<lparr>cj_time = AtDate 1700000030000, cj_once = True, cj_running = True\<rparr>
        (sched t1) w0)))) =
     Some \<lparr>cj_time = AtDate 1700000030000, cj_once = True, cj_running = True\<rparr> \<and>
   ACTIVE \<noteq> STOPPED"
proof -
  define j where "j = \<lparr>cj_time = AtDate 1700000030000, cj_once = True, cj_running = True\<rparr>"
  have h1: "cj_once j" by (simp add: j_def)
  have h2: "patches (sched t1) = None" by (simp add: sched_t1) (simp add: t1_def)
  have s: "state (sched t1) = ACTIVE" by (simp add: sched_t1) (simp add: t1_def ACTIVE_def)
  have c: "u_cronJob (sched t1) = Some j" by (simp add: sched_t1 j_def)
  have o: "fst (onTick j (sched t1) w0) = None"
    by (simp add: onTick_def run_def sched_t1) (simp add: t1_def)
  obtain p s' w where r: "run_after pf0 page page (onTick j (sched t1) w0) = (p, s', w)"
    by (cases "run_after pf0 page page (onTick j (sched t1) w0)") auto
  from one_shot_tick_keeps_state [OF h1 h2 r] h2 s c o r show ?thesis
    unfolding j_def [symmetric] by (simp add: ACTIVE_def STOPPED_def)
qed

end
